theory Spec2Isabelle
  imports Main
begin

section \<open>JavaScript values the handlers read\<close>

text \<open>
  A field of a request body, of the environment or of a Stripe object is a nullable
  string: \<open>None\<close> stands for \<^verbatim>\<open>null\<close> and \<^verbatim>\<open>undefined\<close>, which the handlers never tell
  apart.  JavaScript's truthiness on such a value: \<^verbatim>\<open>null\<close>, \<^verbatim>\<open>undefined\<close> and the
  empty string are falsy, every other string is truthy.
\<close>

definition truthy :: "string option \<Rightarrow> bool" where
  "truthy v = (case v of None \<Rightarrow> False | Some s \<Rightarrow> s \<noteq> [])"

text \<open>\<^verbatim>\<open>a || b\<close> on two such values.\<close>

definition js_or :: "string option \<Rightarrow> string option \<Rightarrow> string option" where
  "js_or a b = (if truthy a then a else b)"

section \<open>The data store\<close>

text \<open>
  The \<^verbatim>\<open>users\<close> table, with the columns the billing code reads and writes.  Column
  \<^verbatim>\<open>id\<close> is \<open>user_id\<close> here.  The subscription servers of \<^verbatim>\<open>src/index.js\<close> write the
  flag \<^verbatim>\<open>est_booste\<close>; the one-time payment servers (\<^verbatim>\<open>src/unnamed/part_000\<close>,
  \<^verbatim>\<open>part_001\<close>) write a column spelled with an acute accent on its last letter, which
  is \<open>est_booste_acute\<close> here.
\<close>

record user_row =
  user_id :: string
  stripe_customer_id :: "string option"
  stripe_subscription_id :: "string option"
  est_booste :: bool
  est_booste_acute :: bool

text \<open>The \<^verbatim>\<open>paiements\<close> table, as the payment servers insert into it.\<close>

record paiement_row =
  id_utilisateur :: "string option"
  montant :: int
  type_paiement :: string
  stripe_payment_id :: string

record db =
  users :: "user_row list"
  paiements :: "paiement_row list"

text \<open>
  What one awaited call of the store client does.  The client resolves to an object
  \<^verbatim>\<open>{ data, error }\<close>: \<open>Completed\<close> is a call the store applied, \<open>ErrorReturned\<close> one the
  store refused, reported in \<^verbatim>\<open>error\<close> (the sitemap and portal handlers read that field,
  the webhook handlers do not), and \<open>Rejected m\<close> a promise that rejects, which the
  \<^verbatim>\<open>await\<close> turns into an exception with message \<open>m\<close>.  A call that did not complete
  leaves the tables as they were.
\<close>

datatype outcome = Completed | ErrorReturned | Rejected string

text \<open>How a block of statements ends: normally, or by a thrown exception.\<close>

datatype completion = Normal | Threw string

text \<open>
  \<^verbatim>\<open>supabase.from('users').update(values).eq(column, v)\<close>: every row the filter keeps
  gets the new values.
\<close>

definition from_users_update ::
  "outcome \<Rightarrow> (user_row \<Rightarrow> user_row) \<Rightarrow> (user_row \<Rightarrow> bool) \<Rightarrow> db \<Rightarrow> completion \<times> db" where
  "from_users_update oc vals keeps d =
     (case oc of
        Completed \<Rightarrow> (Normal, d\<lparr>users := map (\<lambda>r. if keeps r then vals r else r) (users d)\<rparr>)
      | ErrorReturned \<Rightarrow> (Normal, d)
      | Rejected m \<Rightarrow> (Threw m, d))"

text \<open>\<^verbatim>\<open>.eq('id', v)\<close> and \<^verbatim>\<open>.eq('stripe_subscription_id', v)\<close>; a NULL column equals nothing.\<close>

definition eq_id :: "string option \<Rightarrow> user_row \<Rightarrow> bool" where
  "eq_id v r = (v = Some (user_id r))"

definition eq_stripe_subscription_id :: "string option \<Rightarrow> user_row \<Rightarrow> bool" where
  "eq_stripe_subscription_id v r = (v \<noteq> None \<and> stripe_subscription_id r = v)"

text \<open>\<^verbatim>\<open>admin.from('paiements').insert(row)\<close>.\<close>

definition from_paiements_insert :: "outcome \<Rightarrow> paiement_row \<Rightarrow> db \<Rightarrow> completion \<times> db" where
  "from_paiements_insert oc row d =
     (case oc of
        Completed \<Rightarrow> (Normal, d\<lparr>paiements := paiements d @ [row]\<rparr>)
      | ErrorReturned \<Rightarrow> (Normal, d)
      | Rejected m \<Rightarrow> (Threw m, d))"


section \<open>Stripe events and HTTP messages\<close>

text \<open>
  \<^verbatim>\<open>event.data.object\<close>, with the fields the handlers read.  Every Stripe object has an
  \<^verbatim>\<open>id\<close> (\<open>obj_id\<close>); a subscription has a \<^verbatim>\<open>status\<close>.
\<close>

record stripe_object =
  obj_id :: string
  client_reference_id :: "string option"
  customer :: "string option"
  subscription :: "string option"
  status :: string
  metadata_user_id :: "string option"
  metadata_boost_type :: "string option"
  amount_total :: "int option"

record stripe_event =
  ev_type :: string
  data_object :: stripe_object

text \<open>
  \<^verbatim>\<open>stripe.webhooks.constructEvent(body, sig, secret)\<close> belongs to the Stripe library: it
  is a parameter of the handlers.  \<open>Inl m\<close> is a thrown error with message \<open>m\<close>, \<open>Inr e\<close>
  the verified and decoded event.
\<close>

type_synonym construct_event = "string \<Rightarrow> string option \<Rightarrow> string option \<Rightarrow> string + stripe_event"

record webhook_request =
  raw_body :: string
  stripe_signature :: "string option"

datatype jval = JBool bool | JString string | JNull

datatype body = Send string | Json "(string \<times> jval) list" | End

record response =
  status_code :: nat
  body :: body

text \<open>The environment variables, read once at startup.\<close>

record env =
  STRIPE_SECRET_KEY :: "string option"
  STRIPE_PRICE_ID :: "string option"
  STRIPE_WEBHOOK_SECRET :: "string option"
  SUPABASE_URL :: "string option"
  SUPABASE_SERVICE_ROLE_KEY :: "string option"
  CLIENT_BASE_URL :: "string option"

section \<open>The webhook of the subscription servers (\<^verbatim>\<open>src/index.js\<close>)\<close>

text \<open>
  The \<^verbatim>\<open>switch (event.type)\<close> of both servers of \<^verbatim>\<open>src/index.js\<close> (lines 136--178 and
  298--357, the same statements).  Each case issues at most one store call, whose outcome
  is \<open>oc\<close>.
\<close>

definition handle_event :: "outcome \<Rightarrow> stripe_event \<Rightarrow> db \<Rightarrow> completion \<times> db" where
  "handle_event oc event d =
     (if ev_type event = ''checkout.session.completed'' then
        (let session = data_object event;
             userId = client_reference_id session;
             customerId = customer session;
             subscriptionId = subscription session
         in if truthy userId \<and> truthy customerId then
              from_users_update oc
                (\<lambda>r. r\<lparr>stripe_customer_id := customerId,
                        stripe_subscription_id := subscriptionId,
                        est_booste := True\<rparr>)
                (eq_id userId) d
            else (Normal, d))
      else if ev_type event = ''invoice.payment_succeeded'' then
        (let inv = data_object event;
             subscriptionId = subscription inv
         in if truthy subscriptionId then
              from_users_update oc (\<lambda>r. r\<lparr>est_booste := True\<rparr>)
                (eq_stripe_subscription_id subscriptionId) d
            else (Normal, d))
      else if ev_type event = ''customer.subscription.updated'' then
        (let sub = data_object event;
             active = (status sub \<in> set [''active'', ''trialing'', ''past_due''])
         in from_users_update oc
              (\<lambda>r. r\<lparr>stripe_subscription_id := Some (obj_id sub), est_booste := active\<rparr>)
              (eq_stripe_subscription_id (Some (obj_id sub))) d)
      else if ev_type event = ''customer.subscription.deleted'' then
        (let sub = data_object event
         in from_users_update oc (\<lambda>r. r\<lparr>est_booste := False\<rparr>)
              (eq_stripe_subscription_id (Some (obj_id sub))) d)
      else (Normal, d))"

text \<open>
  \<^verbatim>\<open>res.json({ received: true })\<close> and \<^verbatim>\<open>res.status(500).json({ error: 'server error' })\<close>.
\<close>

definition received :: response where
  "received = \<lparr>status_code = 200, body = Json [(''received'', JBool True)]\<rparr>"

definition server_error :: response where
  "server_error = \<lparr>status_code = 500, body = Json [(''error'', JString ''server error'')]\<rparr>"

text \<open>The second \<^verbatim>\<open>try\<close> block and its \<^verbatim>\<open>catch\<close>: acknowledge, or answer 500.\<close>

definition acknowledge :: "completion \<times> db \<Rightarrow> response \<times> db" where
  "acknowledge r =
     (case fst r of
        Normal \<Rightarrow> (received, snd r)
      | Threw m \<Rightarrow> (server_error, snd r))"

text \<open>
  \<^verbatim>\<open>POST /webhook\<close> of the first server (lines 124--184), whose Stripe client is
  \<^verbatim>\<open>null\<close> when \<^verbatim>\<open>STRIPE_SECRET_KEY\<close> is falsy.
\<close>

definition webhook_seo ::
  "env \<Rightarrow> construct_event \<Rightarrow> outcome \<Rightarrow> webhook_request \<Rightarrow> db \<Rightarrow> response \<times> db" where
  "webhook_seo e constructEvent oc req d =
     (if \<not> truthy (STRIPE_SECRET_KEY e) then
        (\<lparr>status_code = 501, body = Send ''Stripe not configured''\<rparr>, d)
      else
        (case constructEvent (raw_body req) (stripe_signature req) (STRIPE_WEBHOOK_SECRET e) of
           Inl err_message \<Rightarrow>
             (\<lparr>status_code = 400, body = Send (''Webhook Error: '' @ err_message)\<rparr>, d)
         | Inr event \<Rightarrow> acknowledge (handle_event oc event d)))"

text \<open>\<^verbatim>\<open>POST /webhook\<close> of the second server (lines 287--364).\<close>

definition webhook_sub ::
  "env \<Rightarrow> construct_event \<Rightarrow> outcome \<Rightarrow> webhook_request \<Rightarrow> db \<Rightarrow> response \<times> db" where
  "webhook_sub e constructEvent oc req d =
     (case constructEvent (raw_body req) (stripe_signature req) (STRIPE_WEBHOOK_SECRET e) of
        Inl err_message \<Rightarrow>
          (\<lparr>status_code = 400, body = Send (''Webhook Error: '' @ err_message)\<rparr>, d)
      | Inr event \<Rightarrow> acknowledge (handle_event oc event d))"

section \<open>The webhook of the one-time payment servers (\<^verbatim>\<open>src/unnamed\<close>)\<close>

text \<open>
  The statements both payment servers run on a verified event (\<^verbatim>\<open>part_000\<close> lines
  39--57, \<^verbatim>\<open>part_001\<close> lines 84--102): on a completed checkout with a user id, insert a
  row into \<^verbatim>\<open>paiements\<close> (outcome \<open>oc_insert\<close>), then set the flag of the user (outcome
  \<open>oc_update\<close>).  An exception of the insert skips the update.
\<close>

definition handle_payment_event ::
  "outcome \<Rightarrow> outcome \<Rightarrow> stripe_event \<Rightarrow> db \<Rightarrow> completion \<times> db" where
  "handle_payment_event oc_insert oc_update event d =
     (if ev_type event = ''checkout.session.completed'' then
        (let s = data_object event;
             userId = js_or (client_reference_id s) (metadata_user_id s);
             amount = (case amount_total s of None \<Rightarrow> 0 | Some a \<Rightarrow> a);
             boostType = (if metadata_boost_type s = Some ''coach''
                          then ''boost coach'' else ''boost adherent'')
         in if truthy userId then
              (case from_paiements_insert oc_insert
                      \<lparr>id_utilisateur = userId, montant = amount,
                       type_paiement = boostType, stripe_payment_id = obj_id s\<rparr> d of
                 (Threw m, d1) \<Rightarrow> (Threw m, d1)
               | (Normal, d1) \<Rightarrow>
                   from_users_update oc_update (\<lambda>r. r\<lparr>est_booste_acute := True\<rparr>)
                     (eq_id userId) d1)
            else (Normal, d))
      else (Normal, d))"

text \<open>
  \<^verbatim>\<open>POST /webhook\<close> of \<^verbatim>\<open>part_001\<close> (lines 69--109): one \<^verbatim>\<open>try\<close> around the
  verification, a second one around the handling.
\<close>

definition webhook_pay ::
  "env \<Rightarrow> construct_event \<Rightarrow> outcome \<Rightarrow> outcome \<Rightarrow> webhook_request \<Rightarrow> db \<Rightarrow> response \<times> db" where
  "webhook_pay e constructEvent oc_insert oc_update req d =
     (case constructEvent (raw_body req) (stripe_signature req) (STRIPE_WEBHOOK_SECRET e) of
        Inl err_message \<Rightarrow>
          (\<lparr>status_code = 400, body = Send (''Webhook Error: '' @ err_message)\<rparr>, d)
      | Inr event \<Rightarrow>
          (case handle_payment_event oc_insert oc_update event d of
             (Normal, d') \<Rightarrow> (\<lparr>status_code = 200, body = End\<rparr>, d')
           | (Threw m, d') \<Rightarrow> (\<lparr>status_code = 500, body = End\<rparr>, d')))"

text \<open>
  \<^verbatim>\<open>POST /webhook\<close> of \<^verbatim>\<open>part_000\<close> (lines 34--63): a single \<^verbatim>\<open>try\<close>, so that an
  exception of the store is answered like one of the verification.
\<close>

definition webhook_pay0 ::
  "env \<Rightarrow> construct_event \<Rightarrow> outcome \<Rightarrow> outcome \<Rightarrow> webhook_request \<Rightarrow> db \<Rightarrow> response \<times> db" where
  "webhook_pay0 e constructEvent oc_insert oc_update req d =
     (case constructEvent (raw_body req) (stripe_signature req) (STRIPE_WEBHOOK_SECRET e) of
        Inl err_message \<Rightarrow>
          (\<lparr>status_code = 400, body = Send (''Webhook Error: '' @ err_message)\<rparr>, d)
      | Inr event \<Rightarrow>
          (case handle_payment_event oc_insert oc_update event d of
             (Normal, d') \<Rightarrow> (\<lparr>status_code = 200, body = End\<rparr>, d')
           | (Threw m, d') \<Rightarrow>
               (\<lparr>status_code = 400, body = Send (''Webhook Error: '' @ m)\<rparr>, d')))"

text \<open>A 2xx status.\<close>

definition is_2xx :: "response \<Rightarrow> bool" where
  "is_2xx r = (200 \<le> status_code r \<and> status_code r < 300)"

section \<open>Creating a checkout session\<close>

record checkout_request =
  req_userId :: "string option"
  req_email :: "string option"
  req_boostType :: "string option"
  req_origin :: "string option"

text \<open>The argument of \<^verbatim>\<open>stripe.checkout.sessions.create\<close>; a line item is a price and a quantity.\<close>

record session_params =
  mode :: string
  sp_customer :: "string option"
  line_items :: "(string option \<times> nat) list"
  allow_promotion_codes :: "bool option"
  success_url :: string
  cancel_url :: string
  sp_client_reference_id :: "string option"
  sp_metadata :: "(string \<times> string option) list"
  sp_locale :: "string option"

text \<open>
  The calls a handler makes to the store and to Stripe, in the order it makes them:
  the select of a user's customer id, \<^verbatim>\<open>stripe.customers.create\<close> (email, and the user id
  of its metadata), the update that stores a customer id on the rows of a user id, and
  \<^verbatim>\<open>stripe.checkout.sessions.create\<close>.
\<close>

datatype effect =
    UsersSelectCustomer "string option"
  | CustomersCreate "string option" "string option"
  | UsersUpdateCustomer "string option" "string option"
  | SessionsCreate session_params

text \<open>What an awaited Stripe call does: it resolves to a value or rejects with a message.\<close>

datatype 'a reply = Resolves 'a | Rejects string

text \<open>
  The behaviour of the store and of Stripe during one request: the outcomes of the two
  store calls, the id of the customer Stripe creates and the URL of the session it
  creates.
\<close>

record upstream =
  select_outcome :: outcome
  customers_create :: "string option reply"
  update_outcome :: outcome
  sessions_create :: "string option reply"

text \<open>
  \<^verbatim>\<open>.select('stripe_customer_id').eq('id', userId).maybeSingle()\<close> followed by
  \<^verbatim>\<open>u?.stripe_customer_id ?? null\<close>: the data is the one matching row, and null when no
  row or several rows match or the store reports an error.
\<close>

definition select_stripe_customer_id :: "outcome \<Rightarrow> string option \<Rightarrow> db \<Rightarrow> string option reply" where
  "select_stripe_customer_id oc userId d =
     (case oc of
        Completed \<Rightarrow>
          (case filter (eq_id userId) (users d) of
             [u] \<Rightarrow> Resolves (stripe_customer_id u)
           | _ \<Rightarrow> Resolves None)
      | ErrorReturned \<Rightarrow> Resolves None
      | Rejected m \<Rightarrow> Rejects m)"

text \<open>\<^verbatim>\<open>CLIENT_BASE_URL = 'http://localhost:5173'\<close>: the default of the destructuring.\<close>

definition client_base_url :: "env \<Rightarrow> string" where
  "client_base_url e = (case CLIENT_BASE_URL e of None \<Rightarrow> ''http://localhost:5173'' | Some s \<Rightarrow> s)"

text \<open>\<^verbatim>\<open>.replace(/\/+$/,'')\<close>: drop the slashes the string ends with.\<close>

definition strip_trailing_slashes :: "string \<Rightarrow> string" where
  "strip_trailing_slashes s = rev (dropWhile (\<lambda>c. c = CHR ''/'') (rev s))"

definition jstring :: "string option \<Rightarrow> jval" where
  "jstring v = (case v of None \<Rightarrow> JNull | Some s \<Rightarrow> JString s)"

text \<open>
  The statements of \<^verbatim>\<open>POST /create-checkout-session\<close> of \<^verbatim>\<open>src/index.js\<close> from the
  select on (lines 197--216 and 376--403), given the base URL the two servers build the
  return URLs from.  The result is the response, the store and the calls made.
\<close>

definition checkout_steps ::
  "string \<Rightarrow> env \<Rightarrow> upstream \<Rightarrow> checkout_request \<Rightarrow> db \<Rightarrow> response \<times> db \<times> effect list" where
  "checkout_steps base e up req d =
     (let userId = req_userId req; email = req_email req;
          sel = [UsersSelectCustomer userId]
      in case select_stripe_customer_id (select_outcome up) userId d of
           Rejects m \<Rightarrow> (server_error, d, sel)
         | Resolves found \<Rightarrow>
             (case (if \<not> truthy found then
                      (case customers_create up of
                         Rejects m \<Rightarrow> (Threw m, None, d, [CustomersCreate (js_or email None) userId])
                       | Resolves cid \<Rightarrow>
                           (case from_users_update (update_outcome up)
                                   (\<lambda>r. r\<lparr>stripe_customer_id := cid\<rparr>) (eq_id userId) d of
                              (c, d1) \<Rightarrow>
                                (c, cid, d1,
                                 [CustomersCreate (js_or email None) userId,
                                  UsersUpdateCustomer userId cid])))
                    else (Normal, found, d, [])) of
                (Threw m, customerId, d1, log) \<Rightarrow> (server_error, d1, sel @ log)
              | (Normal, customerId, d1, log) \<Rightarrow>
                  (let params =
                         \<lparr>mode = ''subscription'',
                          sp_customer = customerId,
                          line_items = [(STRIPE_PRICE_ID e, 1)],
                          allow_promotion_codes = Some True,
                          success_url = base @ ''/success?session_id={CHECKOUT_SESSION_ID}'',
                          cancel_url = base @ ''/profil'',
                          sp_client_reference_id = userId,
                          sp_metadata = [(''origin'', Some ''parrainsport-boost'')],
                          sp_locale = None\<rparr>
                   in case sessions_create up of
                        Rejects m \<Rightarrow> (server_error, d1, sel @ log @ [SessionsCreate params])
                      | Resolves url \<Rightarrow>
                          (\<lparr>status_code = 200, body = Json [(''url'', jstring url)]\<rparr>,
                           d1, sel @ log @ [SessionsCreate params]))))"

text \<open>\<^verbatim>\<open>POST /create-checkout-session\<close> of the first server (lines 190--221).\<close>

definition create_checkout_session_seo ::
  "env \<Rightarrow> upstream \<Rightarrow> checkout_request \<Rightarrow> db \<Rightarrow> response \<times> db \<times> effect list" where
  "create_checkout_session_seo e up req d =
     (if \<not> truthy (STRIPE_SECRET_KEY e) then
        (\<lparr>status_code = 501, body = Json [(''error'', JString ''Stripe not configured'')]\<rparr>, d, [])
      else if \<not> truthy (req_userId req) then
        (\<lparr>status_code = 400, body = Json [(''error'', JString ''userId required'')]\<rparr>, d, [])
      else checkout_steps (strip_trailing_slashes (client_base_url e)) e up req d)"

text \<open>\<^verbatim>\<open>POST /create-checkout-session\<close> of the second server (lines 370--408).\<close>

definition create_checkout_session_sub ::
  "env \<Rightarrow> upstream \<Rightarrow> checkout_request \<Rightarrow> db \<Rightarrow> response \<times> db \<times> effect list" where
  "create_checkout_session_sub e up req d =
     (if \<not> truthy (req_userId req) then
        (\<lparr>status_code = 400, body = Json [(''error'', JString ''userId required'')]\<rparr>, d, [])
      else checkout_steps (client_base_url e) e up req d)"

text \<open>
  \<^verbatim>\<open>POST /create-checkout-session\<close> of \<^verbatim>\<open>part_001\<close> (lines 43--66): a one-time payment,
  with no customer and no store call.  \<^verbatim>\<open>boostType\<close> defaults to \<^verbatim>\<open>'adherent'\<close> when the
  body does not give it.
\<close>

definition create_checkout_session_pay ::
  "env \<Rightarrow> upstream \<Rightarrow> checkout_request \<Rightarrow> db \<Rightarrow> response \<times> db \<times> effect list" where
  "create_checkout_session_pay e up req d =
     (let userId = req_userId req;
          boostType = (case req_boostType req of None \<Rightarrow> Some ''adherent'' | Some b \<Rightarrow> Some b);
          origin = req_origin req
      in if \<not> truthy userId then
           (\<lparr>status_code = 400, body = Json [(''error'', JString ''Missing userId'')]\<rparr>, d, [])
         else
           (let base = (case js_or origin (Some ''https://app.parrainsport.fr'') of
                          None \<Rightarrow> [] | Some s \<Rightarrow> s);
                params =
                  \<lparr>mode = ''payment'',
                   sp_customer = None,
                   line_items = [(STRIPE_PRICE_ID e, 1)],
                   allow_promotion_codes = None,
                   success_url = base @ ''/success?session_id={CHECKOUT_SESSION_ID}'',
                   cancel_url = base @ ''/profile'',
                   sp_client_reference_id = userId,
                   sp_metadata = [(''user_id'', userId), (''boost_type'', boostType)],
                   sp_locale = Some ''fr''\<rparr>
            in case sessions_create up of
                 Rejects m \<Rightarrow>
                   (\<lparr>status_code = 500, body = Json [(''error'', JString m)]\<rparr>,
                    d, [SessionsCreate params])
               | Resolves url \<Rightarrow>
                   (\<lparr>status_code = 200, body = Json [(''url'', jstring url)]\<rparr>,
                    d, [SessionsCreate params])))"

section \<open>Startup\<close>

text \<open>
  What running the top level of a server comes to: a process that has exited with a
  code, or a server that listens, with or without a Stripe client, after a warning or
  not.
\<close>

record server =
  stripe_client :: bool
  warned :: bool

datatype startup = Exited nat | Listening server

text \<open>
  The constructors of the two client libraries, \<^verbatim>\<open>createClient(url, key)\<close> and
  \<^verbatim>\<open>new Stripe(key, ...)\<close>, run at the top level of a server, outside any \<^verbatim>\<open>try\<close>: one
  that throws ends the process with exit code 1, like \<^verbatim>\<open>process.exit(1)\<close>.  On which
  arguments they throw is the libraries' matter, and a parameter here.
\<close>

record library =
  createClient_throws :: "string option \<Rightarrow> string option \<Rightarrow> bool"
  Stripe_throws :: "string option \<Rightarrow> bool"

text \<open>
  The first server of \<^verbatim>\<open>src/index.js\<close>: the test of the data-store variables (lines
  20--24), \<^verbatim>\<open>createClient\<close> (line 27), the warning about the Stripe variables (lines
  117--119), the Stripe client, built only for a truthy secret key (line 121), and
  \<^verbatim>\<open>app.listen\<close> (line 245).
\<close>

definition startup_seo :: "library \<Rightarrow> env \<Rightarrow> startup" where
  "startup_seo lib e =
     (if \<not> truthy (SUPABASE_URL e) \<or> \<not> truthy (SUPABASE_SERVICE_ROLE_KEY e) then Exited 1
      else if createClient_throws lib (SUPABASE_URL e) (SUPABASE_SERVICE_ROLE_KEY e) then Exited 1
      else if truthy (STRIPE_SECRET_KEY e) \<and> Stripe_throws lib (STRIPE_SECRET_KEY e) then Exited 1
      else Listening
             \<lparr>stripe_client = truthy (STRIPE_SECRET_KEY e),
              warned = (\<not> truthy (STRIPE_SECRET_KEY e) \<or> \<not> truthy (STRIPE_PRICE_ID e)
                        \<or> \<not> truthy (STRIPE_WEBHOOK_SECRET e))\<rparr>)"

text \<open>
  The second server of \<^verbatim>\<open>src/index.js\<close>: the test of the five variables (lines 266--269),
  the Stripe client (line 271), \<^verbatim>\<open>createClient\<close> (line 272) and \<^verbatim>\<open>app.listen\<close> (line 432).
\<close>

definition startup_sub :: "library \<Rightarrow> env \<Rightarrow> startup" where
  "startup_sub lib e =
     (if \<not> truthy (STRIPE_SECRET_KEY e) \<or> \<not> truthy (STRIPE_PRICE_ID e)
         \<or> \<not> truthy (STRIPE_WEBHOOK_SECRET e) \<or> \<not> truthy (SUPABASE_URL e)
         \<or> \<not> truthy (SUPABASE_SERVICE_ROLE_KEY e) then Exited 1
      else if Stripe_throws lib (STRIPE_SECRET_KEY e) then Exited 1
      else if createClient_throws lib (SUPABASE_URL e) (SUPABASE_SERVICE_ROLE_KEY e) then Exited 1
      else Listening \<lparr>stripe_client = True, warned = False\<rparr>)"

section \<open>Example data\<close>

text \<open>A complete environment, and the same one without the Stripe secret key.\<close>

definition env_full :: env where
  "env_full =
     \<lparr>STRIPE_SECRET_KEY = Some ''sk_test_1'', STRIPE_PRICE_ID = Some ''price_1'',
      STRIPE_WEBHOOK_SECRET = Some ''whsec_1'', SUPABASE_URL = Some ''https://db.example'',
      SUPABASE_SERVICE_ROLE_KEY = Some ''service_role_1'', CLIENT_BASE_URL = None\<rparr>"

definition env_no_stripe_key :: env where
  "env_no_stripe_key = env_full\<lparr>STRIPE_SECRET_KEY := None\<rparr>"

text \<open>
  A stand-in for the client libraries: the store client refuses a URL that does not
  start with \<^verbatim>\<open>http\<close>, the Stripe client accepts every key.
\<close>

definition library_checks_url :: library where
  "library_checks_url =
     \<lparr>createClient_throws =
        (\<lambda>url key. case url of None \<Rightarrow> True | Some u \<Rightarrow> take 4 u \<noteq> ''http''),
      Stripe_throws = (\<lambda>key. False)\<rparr>"

text \<open>Account \<^verbatim>\<open>u1\<close>, new: no customer, no subscription, not boosted.\<close>

definition account_u1 :: user_row where
  "account_u1 =
     \<lparr>user_id = ''u1'', stripe_customer_id = None, stripe_subscription_id = None,
      est_booste = False, est_booste_acute = False\<rparr>"

text \<open>Account \<^verbatim>\<open>u1\<close> once subscribed: subscription \<^verbatim>\<open>sub_1\<close>, boosted.\<close>

definition account_u1_subscribed :: user_row where
  "account_u1_subscribed =
     \<lparr>user_id = ''u1'', stripe_customer_id = Some ''cus_1'',
      stripe_subscription_id = Some ''sub_1'', est_booste = True, est_booste_acute = False\<rparr>"

definition account_u2 :: user_row where
  "account_u2 =
     \<lparr>user_id = ''u2'', stripe_customer_id = Some ''cus_2'',
      stripe_subscription_id = Some ''sub_2'', est_booste = False, est_booste_acute = False\<rparr>"

definition delivery :: webhook_request where
  "delivery = \<lparr>raw_body = ''{}'', stripe_signature = Some ''t=1,v1=0a''\<rparr>"

text \<open>A completed checkout session of \<^verbatim>\<open>u1\<close>: with its customer, and without one.\<close>

definition checkout_u1 :: stripe_event where
  "checkout_u1 =
     \<lparr>ev_type = ''checkout.session.completed'',
      data_object =
        \<lparr>obj_id = ''cs_1'', client_reference_id = Some ''u1'', customer = Some ''cus_1'',
         subscription = Some ''sub_1'', status = ''complete'', metadata_user_id = None,
         metadata_boost_type = None, amount_total = Some 990\<rparr>\<rparr>"

definition checkout_u1_no_customer :: stripe_event where
  "checkout_u1_no_customer =
     \<lparr>ev_type = ''checkout.session.completed'',
      data_object =
        \<lparr>obj_id = ''cs_1'', client_reference_id = Some ''u1'', customer = None,
         subscription = None, status = ''complete'', metadata_user_id = None,
         metadata_boost_type = None, amount_total = Some 990\<rparr>\<rparr>"

text \<open>An event of type \<open>t\<close> about subscription \<open>sid\<close> in status \<open>st\<close>.\<close>

definition subscription_event :: "string \<Rightarrow> string \<Rightarrow> string \<Rightarrow> stripe_event" where
  "subscription_event t sid st =
     \<lparr>ev_type = t,
      data_object =
        \<lparr>obj_id = sid, client_reference_id = None, customer = Some ''cus_1'',
         subscription = None, status = st, metadata_user_id = None,
         metadata_boost_type = None, amount_total = None\<rparr>\<rparr>"


text \<open>
  A stand-in for the library's verification that reports every failure with a message
  of its own: a delivery without a signature header, a header that is not the expected
  one, and a body that does not decode (only the body \<^verbatim>\<open>{}\<close> does here, to \<open>ev\<close>).
\<close>

definition construct_event_messages :: "stripe_event \<Rightarrow> construct_event" where
  "construct_event_messages ev payload header secret =
     (case header of
        None \<Rightarrow> Inl ''No stripe-signature header value was provided.''
      | Some h \<Rightarrow>
          if h \<noteq> ''t=1,v1=0a'' then Inl ''No signatures found matching the expected signature for payload.''
          else if payload \<noteq> ''{}'' then Inl ''Unexpected end of JSON input''
          else Inr ev)"

text \<open>A store and a Stripe that answer every call: Stripe creates customer \<^verbatim>\<open>cus_9\<close>.\<close>

definition upstream_ok :: upstream where
  "upstream_ok =
     \<lparr>select_outcome = Completed, customers_create = Resolves (Some ''cus_9''),
      update_outcome = Completed,
      sessions_create = Resolves (Some ''https://checkout.example/cs_1'')\<rparr>"

definition request_u1 :: checkout_request where
  "request_u1 =
     \<lparr>req_userId = Some ''u1'', req_email = Some ''u1@example.org'', req_boostType = None,
      req_origin = None\<rparr>"

section \<open>Properties\<close>

subsection \<open>Helper lemmas\<close>

text \<open>
  Below, \<open>webhook\<close> ranges over the webhooks of the two servers of \<^verbatim>\<open>src/index.js\<close>.  The
  first one needs its Stripe client (\<^verbatim>\<open>STRIPE_SECRET_KEY\<close> set) to get as far as the
  verification; the second one only ever listens with that variable set.
\<close>

lemma webhook_sub_verified:
  "constructEvent (raw_body req) (stripe_signature req) (STRIPE_WEBHOOK_SECRET e) = Inr event \<Longrightarrow>
   webhook_sub e constructEvent oc req d = acknowledge (handle_event oc event d)"
  by (simp add: webhook_sub_def)

lemma webhook_seo_verified:
  "truthy (STRIPE_SECRET_KEY e) \<Longrightarrow>
   constructEvent (raw_body req) (stripe_signature req) (STRIPE_WEBHOOK_SECRET e) = Inr event \<Longrightarrow>
   webhook_seo e constructEvent oc req d = acknowledge (handle_event oc event d)"
  by (simp add: webhook_seo_def)

lemma index_webhook_verified:
  assumes "webhook = webhook_seo \<or> webhook = webhook_sub"
    and "truthy (STRIPE_SECRET_KEY e)"
    and "constructEvent (raw_body req) (stripe_signature req) (STRIPE_WEBHOOK_SECRET e) = Inr event"
  shows "webhook e constructEvent oc req d = acknowledge (handle_event oc event d)"
  using assms by (auto simp: webhook_sub_verified webhook_seo_verified)

lemma snd_acknowledge: "snd (acknowledge r) = snd r"
  by (simp add: acknowledge_def split: completion.split)

lemma fst_acknowledge:
  "fst (acknowledge r) = (case fst r of Normal \<Rightarrow> received | Threw m \<Rightarrow> server_error)"
  by (simp add: acknowledge_def split: completion.split)

lemma handle_event_checkout:
  "ev_type event = ''checkout.session.completed'' \<Longrightarrow>
   handle_event oc event d =
     (if truthy (client_reference_id (data_object event)) \<and> truthy (customer (data_object event))
      then from_users_update oc
             (\<lambda>r. r\<lparr>stripe_customer_id := customer (data_object event),
                     stripe_subscription_id := subscription (data_object event),
                     est_booste := True\<rparr>)
             (eq_id (client_reference_id (data_object event))) d
      else (Normal, d))"
  by (simp add: handle_event_def Let_def)

lemma handle_event_invoice:
  "ev_type event = ''invoice.payment_succeeded'' \<Longrightarrow>
   handle_event oc event d =
     (if truthy (subscription (data_object event))
      then from_users_update oc (\<lambda>r. r\<lparr>est_booste := True\<rparr>)
             (eq_stripe_subscription_id (subscription (data_object event))) d
      else (Normal, d))"
  by (simp add: handle_event_def Let_def)

lemma handle_event_updated:
  "ev_type event = ''customer.subscription.updated'' \<Longrightarrow>
   handle_event oc event d =
     from_users_update oc
       (\<lambda>r. r\<lparr>stripe_subscription_id := Some (obj_id (data_object event)),
               est_booste := (status (data_object event) \<in> {''active'', ''trialing'', ''past_due''})\<rparr>)
       (eq_stripe_subscription_id (Some (obj_id (data_object event)))) d"
  by (simp add: handle_event_def Let_def)

lemma handle_event_deleted:
  "ev_type event = ''customer.subscription.deleted'' \<Longrightarrow>
   handle_event oc event d =
     from_users_update oc (\<lambda>r. r\<lparr>est_booste := False\<rparr>)
       (eq_stripe_subscription_id (Some (obj_id (data_object event)))) d"
  by (simp add: handle_event_def Let_def)

lemma snd_from_users_update_Completed:
  "snd (from_users_update Completed vals keeps d) =
     d\<lparr>users := map (\<lambda>r. if keeps r then vals r else r) (users d)\<rparr>"
  by (simp add: from_users_update_def)


lemma from_users_update_no_match:
  "\<forall>r\<in>set (users d). \<not> keeps r \<Longrightarrow> snd (from_users_update oc vals keeps d) = d"
  by (cases oc) (simp_all add: from_users_update_def map_idI)

lemma fst_from_users_update:
  "fst (from_users_update oc vals keeps d) = (case oc of Rejected m \<Rightarrow> Threw m | _ \<Rightarrow> Normal)"
  by (simp add: from_users_update_def split: outcome.split)


lemma fst_handle_event_cases:
  "fst (handle_event oc event d) = Normal \<or> (\<exists>m. oc = Rejected m \<and> fst (handle_event oc event d) = Threw m)"
  by (cases oc) (simp_all add: handle_event_def Let_def fst_from_users_update)

lemma same_subscription:
  "stripe_subscription_id r = Some s \<Longrightarrow>
   r\<lparr>stripe_subscription_id := Some s, est_booste := a\<rparr> = r\<lparr>est_booste := a\<rparr>"
  for r :: user_row
  by simp

lemma construct_event_messages_delivery:
  "construct_event_messages ev (raw_body delivery) (stripe_signature delivery) secret = Inr ev"
  by (simp add: construct_event_messages_def delivery_def)

lemma env_full_configured: "truthy (STRIPE_SECRET_KEY env_full)"
  by (simp add: env_full_def truthy_def)

subsection \<open>Subscription lifecycle events\<close>

text \<open>
  C2.  For a verified \<^verbatim>\<open>customer.subscription.updated\<close> event whose store call
  completes, either server of \<^verbatim>\<open>src/index.js\<close> sets \<^verbatim>\<open>est_booste\<close> to the truth value of
  ``the status is active, trialing or past_due'' on every account whose stored
  subscription id is the event's, and leaves every other account as it was.  A second
  such event for the same subscription id, delivered afterwards, decides the flag alone:
  canceled and then active gives false and then true.
\<close>

theorem subscription_updated_entitled:
  assumes handler: "webhook = webhook_seo \<or> webhook = webhook_sub"
    and configured: "truthy (STRIPE_SECRET_KEY e)"
    and verified:
      "constructEvent (raw_body req) (stripe_signature req) (STRIPE_WEBHOOK_SECRET e) = Inr event"
    and updated: "ev_type event = ''customer.subscription.updated''"
    and verified':
      "constructEvent (raw_body req') (stripe_signature req') (STRIPE_WEBHOOK_SECRET e) = Inr event'"
    and updated': "ev_type event' = ''customer.subscription.updated''"
    and same_id: "obj_id (data_object event') = obj_id (data_object event)"
  shows
    "snd (webhook e constructEvent Completed req d) =
       d\<lparr>users :=
            map (\<lambda>r. if stripe_subscription_id r = Some (obj_id (data_object event))
                     then r\<lparr>est_booste :=
                              (status (data_object event) \<in> {''active'', ''trialing'', ''past_due''})\<rparr>
                     else r)
              (users d)\<rparr> \<and>
     snd (webhook e constructEvent Completed req' (snd (webhook e constructEvent Completed req d))) =
       d\<lparr>users :=
            map (\<lambda>r. if stripe_subscription_id r = Some (obj_id (data_object event))
                     then r\<lparr>est_booste :=
                              (status (data_object event') \<in> {''active'', ''trialing'', ''past_due''})\<rparr>
                     else r)
              (users d)\<rparr>"
proof -
  have once: "snd (webhook e constructEvent Completed req d') =
       d'\<lparr>users :=
            map (\<lambda>r. if stripe_subscription_id r = Some (obj_id (data_object event))
                     then r\<lparr>est_booste :=
                              (status (data_object event) \<in> {''active'', ''trialing'', ''past_due''})\<rparr>
                     else r)
              (users d')\<rparr>" for d'
    using updated
    by (simp add: index_webhook_verified [where constructEvent = constructEvent, OF handler configured verified]
        snd_acknowledge handle_event_updated snd_from_users_update_Completed
        eq_stripe_subscription_id_def same_subscription cong: if_cong)
  have again: "snd (webhook e constructEvent Completed req' d') =
       d'\<lparr>users :=
            map (\<lambda>r. if stripe_subscription_id r = Some (obj_id (data_object event))
                     then r\<lparr>est_booste :=
                              (status (data_object event') \<in> {''active'', ''trialing'', ''past_due''})\<rparr>
                     else r)
              (users d')\<rparr>" for d'
    using updated' same_id
    by (simp add: index_webhook_verified [where constructEvent = constructEvent, OF handler configured verified']
        snd_acknowledge handle_event_updated snd_from_users_update_Completed
        eq_stripe_subscription_id_def same_subscription cong: if_cong)
  have last_wins:
    "map (\<lambda>r. if stripe_subscription_id r = Some s then r\<lparr>est_booste := b\<rparr> else r)
       (map (\<lambda>r. if stripe_subscription_id r = Some s then r\<lparr>est_booste := a\<rparr> else r) rows) =
     map (\<lambda>r. if stripe_subscription_id r = Some s then r\<lparr>est_booste := b\<rparr> else r) rows"
    for s a b and rows :: "user_row list"
    by (induction rows) simp_all
  show ?thesis
    unfolding again once by (simp add: last_wins)
qed

text \<open>
  The scenario of the specification: \<^verbatim>\<open>u1\<close> holds \<^verbatim>\<open>sub_1\<close> and is boosted; an update
  of \<^verbatim>\<open>sub_1\<close> to canceled clears the flag, a later update to active sets it again, and
  \<^verbatim>\<open>u2\<close> is never touched.  The verification stand-in of this scenario decodes the
  body \<^verbatim>\<open>{}\<close> to the canceled update and every other body to the active one.
\<close>

theorem subscription_updated_entitled_witness:
  "users (snd (webhook_seo env_full
          (\<lambda>payload header secret.
             if payload = ''{}''
             then Inr (subscription_event ''customer.subscription.updated'' ''sub_1'' ''canceled'')
             else Inr (subscription_event ''customer.subscription.updated'' ''sub_1'' ''active''))
          Completed \<lparr>raw_body = ''{}'', stripe_signature = Some ''t=1,v1=0a''\<rparr>
          \<lparr>users = [account_u1_subscribed, account_u2], paiements = []\<rparr>))
     = [account_u1_subscribed\<lparr>est_booste := False\<rparr>, account_u2] \<and>
   users (snd (webhook_seo env_full
          (\<lambda>payload header secret.
             if payload = ''{}''
             then Inr (subscription_event ''customer.subscription.updated'' ''sub_1'' ''canceled'')
             else Inr (subscription_event ''customer.subscription.updated'' ''sub_1'' ''active''))
          Completed \<lparr>raw_body = ''{ }'', stripe_signature = Some ''t=2,v1=0b''\<rparr>
          (snd (webhook_seo env_full
            (\<lambda>payload header secret.
               if payload = ''{}''
               then Inr (subscription_event ''customer.subscription.updated'' ''sub_1'' ''canceled'')
               else Inr (subscription_event ''customer.subscription.updated'' ''sub_1'' ''active''))
            Completed \<lparr>raw_body = ''{}'', stripe_signature = Some ''t=1,v1=0a''\<rparr>
            \<lparr>users = [account_u1_subscribed, account_u2], paiements = []\<rparr>))))
     = [account_u1_subscribed, account_u2]"
proof -
  have t: "ev_type (subscription_event ''customer.subscription.updated'' s st) =
           ''customer.subscription.updated''" for s st
    by (simp add: subscription_event_def)
  have same_id:
    "obj_id (data_object (subscription_event ''customer.subscription.updated'' ''sub_1'' ''active'')) =
     obj_id (data_object (subscription_event ''customer.subscription.updated'' ''sub_1'' ''canceled''))"
    by (simp add: subscription_event_def)
  note scenario =
    subscription_updated_entitled
      [where webhook = webhook_seo and e = env_full
         and req = "\<lparr>raw_body = ''{}'', stripe_signature = Some ''t=1,v1=0a''\<rparr>"
         and req' = "\<lparr>raw_body = ''{ }'', stripe_signature = Some ''t=2,v1=0b''\<rparr>"
         and event = "subscription_event ''customer.subscription.updated'' ''sub_1'' ''canceled''"
         and event' = "subscription_event ''customer.subscription.updated'' ''sub_1'' ''active''"
         and constructEvent =
           "\<lambda>payload header secret.
              if payload = ''{}''
              then Inr (subscription_event ''customer.subscription.updated'' ''sub_1'' ''canceled'')
              else Inr (subscription_event ''customer.subscription.updated'' ''sub_1'' ''active'')"
         and d = "\<lparr>users = [account_u1_subscribed, account_u2], paiements = []\<rparr>",
       OF disjI1 [OF refl] env_full_configured _ t _ t same_id]
  have first: "(if raw_body \<lparr>raw_body = ''{}'', stripe_signature = Some ''t=1,v1=0a''\<rparr> = ''{}''
      then Inr (subscription_event ''customer.subscription.updated'' ''sub_1'' ''canceled'')
      else Inr (subscription_event ''customer.subscription.updated'' ''sub_1'' ''active'')) =
     (Inr (subscription_event ''customer.subscription.updated'' ''sub_1'' ''canceled'')
        :: string + stripe_event)"
    by simp
  have second: "(if raw_body \<lparr>raw_body = ''{ }'', stripe_signature = Some ''t=2,v1=0b''\<rparr> = ''{}''
      then Inr (subscription_event ''customer.subscription.updated'' ''sub_1'' ''canceled'')
      else Inr (subscription_event ''customer.subscription.updated'' ''sub_1'' ''active'')) =
     (Inr (subscription_event ''customer.subscription.updated'' ''sub_1'' ''active'')
        :: string + stripe_event)"
    by simp
  note result = scenario [OF first second]
  show ?thesis
    unfolding result [THEN conjunct2]
    unfolding result [THEN conjunct1]
    by (simp add: subscription_event_def account_u1_subscribed_def account_u2_def)
qed

text \<open>
  C4.  For a verified \<^verbatim>\<open>customer.subscription.deleted\<close> event whose store call
  completes, either server of \<^verbatim>\<open>src/index.js\<close> sets \<^verbatim>\<open>est_booste\<close> to false on every
  account whose stored subscription id is the event's, whatever the flag was, and leaves
  every other account as it was.
\<close>

theorem subscription_deleted_not_entitled:
  assumes handler: "webhook = webhook_seo \<or> webhook = webhook_sub"
    and configured: "truthy (STRIPE_SECRET_KEY e)"
    and verified:
      "constructEvent (raw_body req) (stripe_signature req) (STRIPE_WEBHOOK_SECRET e) = Inr event"
    and deleted: "ev_type event = ''customer.subscription.deleted''"
  shows
    "snd (webhook e constructEvent Completed req d) =
       d\<lparr>users :=
            map (\<lambda>r. if stripe_subscription_id r = Some (obj_id (data_object event))
                     then r\<lparr>est_booste := False\<rparr> else r)
              (users d)\<rparr>"
  using deleted
  by (simp add: index_webhook_verified [where constructEvent = constructEvent, OF handler configured verified] snd_acknowledge
      handle_event_deleted snd_from_users_update_Completed eq_stripe_subscription_id_def)

theorem subscription_deleted_not_entitled_witness:
  "users (snd (webhook_seo env_full
          (construct_event_messages (subscription_event ''customer.subscription.deleted'' ''sub_1'' ''canceled''))
          Completed delivery \<lparr>users = [account_u1_subscribed, account_u2], paiements = []\<rparr>))
     = [account_u1_subscribed\<lparr>est_booste := False\<rparr>, account_u2] \<and>
   users (snd (webhook_sub env_full
          (construct_event_messages (subscription_event ''customer.subscription.deleted'' ''sub_2'' ''canceled''))
          Completed delivery \<lparr>users = [account_u1_subscribed, account_u2], paiements = []\<rparr>))
     = [account_u1_subscribed, account_u2]"
proof -
  have t: "ev_type (subscription_event ''customer.subscription.deleted'' s st) =
           ''customer.subscription.deleted''" for s st
    by (simp add: subscription_event_def)
  note first =
    subscription_deleted_not_entitled
      [where webhook = webhook_seo and req = delivery
         and constructEvent = "construct_event_messages
           (subscription_event ''customer.subscription.deleted'' ''sub_1'' ''canceled'')",
       OF disjI1 [OF refl] env_full_configured construct_event_messages_delivery t]
  note second =
    subscription_deleted_not_entitled
      [where webhook = webhook_sub and req = delivery
         and constructEvent = "construct_event_messages
           (subscription_event ''customer.subscription.deleted'' ''sub_2'' ''canceled'')",
       OF disjI2 [OF refl] env_full_configured construct_event_messages_delivery t]
  show ?thesis
    unfolding first second
    by (simp add: subscription_event_def account_u1_subscribed_def account_u2_def)
qed

text \<open>
  C10.  A \<^verbatim>\<open>customer.subscription.updated\<close> event never changes the subscription id
  (nor the id) of any account, whatever the store call's outcome: the update writes the
  value it filters on.  When no account stores the event's subscription id, the store
  stays as it was.
\<close>

theorem subscription_updated_keeps_subscription_ids:
  assumes handler: "webhook = webhook_seo \<or> webhook = webhook_sub"
    and configured: "truthy (STRIPE_SECRET_KEY e)"
    and verified:
      "constructEvent (raw_body req) (stripe_signature req) (STRIPE_WEBHOOK_SECRET e) = Inr event"
    and updated: "ev_type event = ''customer.subscription.updated''"
  shows
    "map (\<lambda>r. (user_id r, stripe_subscription_id r)) (users (snd (webhook e constructEvent oc req d))) =
       map (\<lambda>r. (user_id r, stripe_subscription_id r)) (users d) \<and>
     (filter (eq_stripe_subscription_id (Some (obj_id (data_object event)))) (users d) = [] \<longrightarrow>
        snd (webhook e constructEvent oc req d) = d)"
proof -
  have w: "snd (webhook e constructEvent oc req d) =
             snd (from_users_update oc
               (\<lambda>r. r\<lparr>stripe_subscription_id := Some (obj_id (data_object event)),
                       est_booste := (status (data_object event) \<in> {''active'', ''trialing'', ''past_due''})\<rparr>)
               (eq_stripe_subscription_id (Some (obj_id (data_object event)))) d)"
    using updated
    by (simp add: index_webhook_verified [where constructEvent = constructEvent, OF handler configured verified] snd_acknowledge
        handle_event_updated)
  have ids: "map (\<lambda>r. (user_id r, stripe_subscription_id r)) (users (snd (from_users_update oc
               (\<lambda>r. r\<lparr>stripe_subscription_id := Some s, est_booste := a\<rparr>)
               (eq_stripe_subscription_id (Some s)) d))) =
             map (\<lambda>r. (user_id r, stripe_subscription_id r)) (users d)" for s a
    by (cases oc) (simp_all add: from_users_update_def eq_stripe_subscription_id_def)
  have none: "snd (from_users_update oc vals keeps d) = d" if "filter keeps (users d) = []" for vals keeps
    using that by (intro from_users_update_no_match) (simp add: filter_empty_conv)
  show ?thesis
    unfolding w using ids none by blast
qed

theorem subscription_updated_keeps_subscription_ids_witness:
  "map (\<lambda>r. (user_id r, stripe_subscription_id r))
     (users (snd (webhook_sub env_full
        (construct_event_messages (subscription_event ''customer.subscription.updated'' ''sub_1'' ''canceled''))
        Completed delivery \<lparr>users = [account_u1_subscribed, account_u2], paiements = []\<rparr>)))
     = [(''u1'', Some ''sub_1''), (''u2'', Some ''sub_2'')] \<and>
   snd (webhook_seo env_full
        (construct_event_messages (subscription_event ''customer.subscription.updated'' ''sub_3'' ''active''))
        Completed delivery \<lparr>users = [account_u1_subscribed, account_u2], paiements = []\<rparr>)
     = \<lparr>users = [account_u1_subscribed, account_u2], paiements = []\<rparr>"
proof -
  have t: "ev_type (subscription_event ''customer.subscription.updated'' s st) =
           ''customer.subscription.updated''" for s st
    by (simp add: subscription_event_def)
  note stored =
    subscription_updated_keeps_subscription_ids
      [where webhook = webhook_sub and req = delivery and oc = Completed
         and d = "\<lparr>users = [account_u1_subscribed, account_u2], paiements = []\<rparr>"
         and constructEvent = "construct_event_messages
           (subscription_event ''customer.subscription.updated'' ''sub_1'' ''canceled'')",
       OF disjI2 [OF refl] env_full_configured construct_event_messages_delivery t]
  note unknown =
    subscription_updated_keeps_subscription_ids
      [where webhook = webhook_seo and req = delivery and oc = Completed
         and d = "\<lparr>users = [account_u1_subscribed, account_u2], paiements = []\<rparr>"
         and constructEvent = "construct_event_messages
           (subscription_event ''customer.subscription.updated'' ''sub_3'' ''active'')",
       OF disjI1 [OF refl] env_full_configured construct_event_messages_delivery t]
  have a: "map (\<lambda>r. (user_id r, stripe_subscription_id r))
     (users (snd (webhook_sub env_full
        (construct_event_messages (subscription_event ''customer.subscription.updated'' ''sub_1'' ''canceled''))
        Completed delivery \<lparr>users = [account_u1_subscribed, account_u2], paiements = []\<rparr>)))
     = [(''u1'', Some ''sub_1''), (''u2'', Some ''sub_2'')]"
    using stored by (simp add: account_u1_subscribed_def account_u2_def)
  have b: "snd (webhook_seo env_full
        (construct_event_messages (subscription_event ''customer.subscription.updated'' ''sub_3'' ''active''))
        Completed delivery \<lparr>users = [account_u1_subscribed, account_u2], paiements = []\<rparr>)
     = \<lparr>users = [account_u1_subscribed, account_u2], paiements = []\<rparr>"
    using unknown
    by (simp add: subscription_event_def eq_stripe_subscription_id_def
        account_u1_subscribed_def account_u2_def)
  show ?thesis using a b by simp
qed

subsection \<open>Signature failures\<close>

text \<open>
  C3.  A delivery whose verification throws is answered with a status outside 2xx by
  all four webhook handlers, and the store is returned as it was, whatever the store
  would have answered: the event is only ever taken from a successful verification.
\<close>

theorem signature_failure_rejected:
  assumes failed:
    "constructEvent (raw_body req) (stripe_signature req) (STRIPE_WEBHOOK_SECRET e) = Inl m"
  shows
    "\<not> is_2xx (fst (webhook_seo e constructEvent oc req d)) \<and>
     snd (webhook_seo e constructEvent oc req d) = d \<and>
     \<not> is_2xx (fst (webhook_sub e constructEvent oc req d)) \<and>
     snd (webhook_sub e constructEvent oc req d) = d \<and>
     \<not> is_2xx (fst (webhook_pay e constructEvent oc_insert oc_update req d)) \<and>
     snd (webhook_pay e constructEvent oc_insert oc_update req d) = d \<and>
     \<not> is_2xx (fst (webhook_pay0 e constructEvent oc_insert oc_update req d)) \<and>
     snd (webhook_pay0 e constructEvent oc_insert oc_update req d) = d"
  using failed
  by (simp add: webhook_seo_def webhook_sub_def webhook_pay_def webhook_pay0_def is_2xx_def)

text \<open>A delivery without a signature header, on a store holding \<^verbatim>\<open>u1\<close>.\<close>

theorem signature_failure_rejected_witness:
  "\<not> is_2xx (fst (webhook_seo env_full (construct_event_messages checkout_u1) Completed
       \<lparr>raw_body = ''{}'', stripe_signature = None\<rparr> \<lparr>users = [account_u1], paiements = []\<rparr>)) \<and>
   snd (webhook_seo env_full (construct_event_messages checkout_u1) Completed
       \<lparr>raw_body = ''{}'', stripe_signature = None\<rparr> \<lparr>users = [account_u1], paiements = []\<rparr>)
     = \<lparr>users = [account_u1], paiements = []\<rparr> \<and>
   \<not> is_2xx (fst (webhook_pay env_full (construct_event_messages checkout_u1) Completed Completed
       \<lparr>raw_body = ''{}'', stripe_signature = None\<rparr> \<lparr>users = [account_u1], paiements = []\<rparr>)) \<and>
   snd (webhook_pay env_full (construct_event_messages checkout_u1) Completed Completed
       \<lparr>raw_body = ''{}'', stripe_signature = None\<rparr> \<lparr>users = [account_u1], paiements = []\<rparr>)
     = \<lparr>users = [account_u1], paiements = []\<rparr>"
proof -
  have failed:
    "construct_event_messages checkout_u1
       (raw_body \<lparr>raw_body = ''{}'', stripe_signature = None\<rparr>)
       (stripe_signature \<lparr>raw_body = ''{}'', stripe_signature = None\<rparr>)
       (STRIPE_WEBHOOK_SECRET env_full) =
     Inl ''No stripe-signature header value was provided.''"
    by (simp add: construct_event_messages_def)
  note rejected =
    signature_failure_rejected
      [where constructEvent = "construct_event_messages checkout_u1"
         and req = "\<lparr>raw_body = ''{}'', stripe_signature = None\<rparr>"
         and oc = Completed and oc_insert = Completed and oc_update = Completed
         and d = "\<lparr>users = [account_u1], paiements = []\<rparr>",
       OF failed]
  show ?thesis using rejected by blast
qed

text \<open>
  C7, as amended.  The answer to a delivery whose verification throws is status 400
  with the text \<^verbatim>\<open>Webhook Error: \<close> followed by the message of the thrown error.  So the
  status is the same for every failure, and the answers to two failed deliveries are the
  same exactly when the two error messages are.
\<close>

theorem signature_failure_response:
  assumes handler: "webhook = webhook_seo \<or> webhook = webhook_sub"
    and configured: "truthy (STRIPE_SECRET_KEY e)"
    and failed:
      "constructEvent (raw_body req) (stripe_signature req) (STRIPE_WEBHOOK_SECRET e) = Inl m"
    and failed':
      "constructEvent (raw_body req') (stripe_signature req') (STRIPE_WEBHOOK_SECRET e) = Inl m'"
  shows
    "fst (webhook e constructEvent oc req d) =
       \<lparr>status_code = 400, body = Send (''Webhook Error: '' @ m)\<rparr> \<and>
     fst (webhook_pay e constructEvent oc_insert oc_update req d) =
       \<lparr>status_code = 400, body = Send (''Webhook Error: '' @ m)\<rparr> \<and>
     (fst (webhook e constructEvent oc req d) = fst (webhook e constructEvent oc' req' d')) = (m = m') \<and>
     (fst (webhook_pay e constructEvent oc_insert oc_update req d) =
      fst (webhook_pay e constructEvent oc_insert' oc_update' req' d')) = (m = m')"
  using handler configured failed failed'
  by (auto simp: webhook_seo_def webhook_sub_def webhook_pay_def)

text \<open>
  Two deliveries that fail for different reasons (no signature header; a signature that
  does not match) get different answers.  This refutes C7 as stated.
\<close>

theorem signature_failure_response_counterexample:
  "fst (webhook_sub env_full (construct_event_messages checkout_u1) Completed
         \<lparr>raw_body = ''{}'', stripe_signature = None\<rparr> \<lparr>users = [account_u1], paiements = []\<rparr>) \<noteq>
   fst (webhook_sub env_full (construct_event_messages checkout_u1) Completed
         \<lparr>raw_body = ''{}'', stripe_signature = Some ''t=1,v1=ff''\<rparr>
         \<lparr>users = [account_u1], paiements = []\<rparr>)"
  by (simp add: webhook_sub_def construct_event_messages_def)

theorem signature_failure_response_witness:
  "fst (webhook_seo env_full (construct_event_messages checkout_u1) Completed
         \<lparr>raw_body = ''{}'', stripe_signature = None\<rparr> \<lparr>users = [account_u1], paiements = []\<rparr>) =
     \<lparr>status_code = 400,
      body = Send ''Webhook Error: No stripe-signature header value was provided.''\<rparr> \<and>
   fst (webhook_pay env_full (construct_event_messages checkout_u1) Completed Completed
         \<lparr>raw_body = ''{}'', stripe_signature = None\<rparr> \<lparr>users = [account_u1], paiements = []\<rparr>) =
     \<lparr>status_code = 400,
      body = Send ''Webhook Error: No stripe-signature header value was provided.''\<rparr>"
proof -
  have failed:
    "construct_event_messages checkout_u1
       (raw_body \<lparr>raw_body = ''{}'', stripe_signature = None\<rparr>)
       (stripe_signature \<lparr>raw_body = ''{}'', stripe_signature = None\<rparr>)
       (STRIPE_WEBHOOK_SECRET env_full) =
     Inl ''No stripe-signature header value was provided.''"
    by (simp add: construct_event_messages_def)
  have failed':
    "construct_event_messages checkout_u1
       (raw_body \<lparr>raw_body = ''{}'', stripe_signature = Some ''t=1,v1=ff''\<rparr>)
       (stripe_signature \<lparr>raw_body = ''{}'', stripe_signature = Some ''t=1,v1=ff''\<rparr>)
       (STRIPE_WEBHOOK_SECRET env_full) =
     Inl ''No signatures found matching the expected signature for payload.''"
    by (simp add: construct_event_messages_def)
  note answers =
    signature_failure_response
      [where webhook = webhook_seo
         and constructEvent = "construct_event_messages checkout_u1"
         and req = "\<lparr>raw_body = ''{}'', stripe_signature = None\<rparr>"
         and req' = "\<lparr>raw_body = ''{}'', stripe_signature = Some ''t=1,v1=ff''\<rparr>"
         and oc = Completed and oc_insert = Completed and oc_update = Completed
         and d = "\<lparr>users = [account_u1], paiements = []\<rparr>",
       OF disjI1 [OF refl] env_full_configured failed failed']
  show ?thesis using answers by simp
qed

subsection \<open>Completed checkouts\<close>

lemma webhook_pay_verified:
  "constructEvent (raw_body req) (stripe_signature req) (STRIPE_WEBHOOK_SECRET e) = Inr event \<Longrightarrow>
   snd (webhook_pay e constructEvent oc_insert oc_update req d) =
     snd (handle_payment_event oc_insert oc_update event d)"
  by (simp add: webhook_pay_def split: prod.split completion.split)

lemma handle_payment_event_checkout:
  "ev_type event = ''checkout.session.completed'' \<Longrightarrow>
   handle_payment_event oc_insert oc_update event d =
     (if truthy (js_or (client_reference_id (data_object event)) (metadata_user_id (data_object event)))
      then
        (case from_paiements_insert oc_insert
                \<lparr>id_utilisateur =
                   js_or (client_reference_id (data_object event)) (metadata_user_id (data_object event)),
                 montant = (case amount_total (data_object event) of None \<Rightarrow> 0 | Some a \<Rightarrow> a),
                 type_paiement =
                   (if metadata_boost_type (data_object event) = Some ''coach''
                    then ''boost coach'' else ''boost adherent''),
                 stripe_payment_id = obj_id (data_object event)\<rparr> d of
           (Threw m, d1) \<Rightarrow> (Threw m, d1)
         | (Normal, d1) \<Rightarrow>
             from_users_update oc_update (\<lambda>r. r\<lparr>est_booste_acute := True\<rparr>)
               (eq_id (js_or (client_reference_id (data_object event))
                             (metadata_user_id (data_object event)))) d1)
      else (Normal, d))"
  by (simp add: handle_payment_event_def Let_def)

text \<open>
  C1 fails as stated: a verified completed checkout that names account \<^verbatim>\<open>u1\<close> but
  carries no customer leaves the store as it was, although the store call would complete.
\<close>

theorem checkout_completed_update_counterexample:
  "truthy (client_reference_id (data_object checkout_u1_no_customer)) \<and>
   webhook_sub env_full (construct_event_messages checkout_u1_no_customer) Completed delivery
       \<lparr>users = [account_u1], paiements = []\<rparr> =
     (received, \<lparr>users = [account_u1], paiements = []\<rparr>) \<and>
   est_booste account_u1 = False"
  by (simp add: webhook_sub_def construct_event_messages_def delivery_def handle_event_def
      checkout_u1_no_customer_def truthy_def acknowledge_def account_u1_def)

text \<open>
  C1, as amended.  On a verified \<^verbatim>\<open>checkout.session.completed\<close> event whose store calls
  complete:
  \<^item> either server of \<^verbatim>\<open>src/index.js\<close> updates the store exactly when the event's
    \<^verbatim>\<open>client_reference_id\<close> and \<^verbatim>\<open>customer\<close> are both truthy; it then sets the customer id,
    the subscription id (null when the event has none) and \<^verbatim>\<open>est_booste = true\<close> on every
    account whose id is the \<^verbatim>\<open>client_reference_id\<close>, and nothing else;
  \<^item> the payment server of \<^verbatim>\<open>part_001\<close> takes the user id from \<^verbatim>\<open>client_reference_id\<close>
    or else from \<^verbatim>\<open>metadata.user_id\<close>; when it is truthy it appends one row to
    \<^verbatim>\<open>paiements\<close> and sets only its boost flag on the accounts of that id, and otherwise
    changes nothing.
\<close>

theorem checkout_completed_update:
  assumes handler: "webhook = webhook_seo \<or> webhook = webhook_sub"
    and configured: "truthy (STRIPE_SECRET_KEY e)"
    and verified:
      "constructEvent (raw_body req) (stripe_signature req) (STRIPE_WEBHOOK_SECRET e) = Inr event"
    and checkout: "ev_type event = ''checkout.session.completed''"
  shows
    "snd (webhook e constructEvent Completed req d) =
       (if truthy (client_reference_id (data_object event)) \<and> truthy (customer (data_object event))
        then d\<lparr>users :=
                 map (\<lambda>r. if client_reference_id (data_object event) = Some (user_id r)
                          then r\<lparr>stripe_customer_id := customer (data_object event),
                                  stripe_subscription_id := subscription (data_object event),
                                  est_booste := True\<rparr>
                          else r)
                   (users d)\<rparr>
        else d) \<and>
     snd (webhook_pay e constructEvent Completed Completed req d) =
       (if truthy (js_or (client_reference_id (data_object event)) (metadata_user_id (data_object event)))
        then d\<lparr>paiements :=
                 paiements d @
                 [\<lparr>id_utilisateur =
                      js_or (client_reference_id (data_object event)) (metadata_user_id (data_object event)),
                    montant = (case amount_total (data_object event) of None \<Rightarrow> 0 | Some a \<Rightarrow> a),
                    type_paiement =
                      (if metadata_boost_type (data_object event) = Some ''coach''
                       then ''boost coach'' else ''boost adherent''),
                    stripe_payment_id = obj_id (data_object event)\<rparr>],
               users :=
                 map (\<lambda>r. if js_or (client_reference_id (data_object event))
                                   (metadata_user_id (data_object event)) = Some (user_id r)
                          then r\<lparr>est_booste_acute := True\<rparr> else r)
                   (users d)\<rparr>
        else d)"
proof -
  have index: "snd (webhook e constructEvent Completed req d) =
       (if truthy (client_reference_id (data_object event)) \<and> truthy (customer (data_object event))
        then d\<lparr>users :=
                 map (\<lambda>r. if client_reference_id (data_object event) = Some (user_id r)
                          then r\<lparr>stripe_customer_id := customer (data_object event),
                                  stripe_subscription_id := subscription (data_object event),
                                  est_booste := True\<rparr>
                          else r)
                   (users d)\<rparr>
        else d)"
    using checkout
    by (simp add: index_webhook_verified [where constructEvent = constructEvent, OF handler configured verified]
        snd_acknowledge handle_event_checkout snd_from_users_update_Completed eq_id_def)
  have pay: "snd (handle_payment_event Completed Completed event d) =
       (if truthy (js_or (client_reference_id (data_object event)) (metadata_user_id (data_object event)))
        then d\<lparr>paiements :=
                 paiements d @
                 [\<lparr>id_utilisateur =
                      js_or (client_reference_id (data_object event)) (metadata_user_id (data_object event)),
                    montant = (case amount_total (data_object event) of None \<Rightarrow> 0 | Some a \<Rightarrow> a),
                    type_paiement =
                      (if metadata_boost_type (data_object event) = Some ''coach''
                       then ''boost coach'' else ''boost adherent''),
                    stripe_payment_id = obj_id (data_object event)\<rparr>],
               users :=
                 map (\<lambda>r. if js_or (client_reference_id (data_object event))
                                   (metadata_user_id (data_object event)) = Some (user_id r)
                          then r\<lparr>est_booste_acute := True\<rparr> else r)
                   (users d)\<rparr>
        else d)"
    using checkout
    by (simp add: handle_payment_event_checkout from_paiements_insert_def from_users_update_def
        eq_id_def)
  show ?thesis
    using index pay webhook_pay_verified [where constructEvent = constructEvent, OF verified]
    by simp
qed

text \<open>
  The completed checkout of \<^verbatim>\<open>u1\<close> with customer \<^verbatim>\<open>cus_1\<close> and subscription \<^verbatim>\<open>sub_1\<close>, on
  a store holding the new account \<^verbatim>\<open>u1\<close> and account \<^verbatim>\<open>u2\<close>.
\<close>

theorem checkout_completed_update_witness:
  "snd (webhook_seo env_full (construct_event_messages checkout_u1) Completed delivery
        \<lparr>users = [account_u1, account_u2], paiements = []\<rparr>) =
     \<lparr>users = [account_u1_subscribed, account_u2], paiements = []\<rparr> \<and>
   snd (webhook_pay env_full (construct_event_messages checkout_u1) Completed Completed delivery
        \<lparr>users = [account_u1, account_u2], paiements = []\<rparr>) =
     \<lparr>users = [account_u1\<lparr>est_booste_acute := True\<rparr>, account_u2],
      paiements = [\<lparr>id_utilisateur = Some ''u1'', montant = 990,
                     type_paiement = ''boost adherent'', stripe_payment_id = ''cs_1''\<rparr>]\<rparr>"
proof -
  have t: "ev_type checkout_u1 = ''checkout.session.completed''"
    by (simp add: checkout_u1_def)
  note update =
    checkout_completed_update
      [where webhook = webhook_seo and req = delivery
         and constructEvent = "construct_event_messages checkout_u1"
         and d = "\<lparr>users = [account_u1, account_u2], paiements = []\<rparr>",
       OF disjI1 [OF refl] env_full_configured construct_event_messages_delivery t]
  show ?thesis
    unfolding update [THEN conjunct1] update [THEN conjunct2]
    by (simp add: checkout_u1_def truthy_def js_or_def account_u1_def account_u2_def
        account_u1_subscribed_def)
qed







subsection \<open>Acknowledging\<close>

text \<open>
  What either server of \<^verbatim>\<open>src/index.js\<close> answers after a successful verification,
  whatever the event: status 200 with \<^verbatim>\<open>{received: true}\<close>, unless the store call
  throws, and then status 500 with \<^verbatim>\<open>{error: 'server error'}\<close>.  A store call that
  reports its failure in the \<^verbatim>\<open>error\<close> field of its result is acknowledged like one
  that was applied, and leaves the store as it was.
\<close>

lemma verified_event_answer:
  assumes handler: "webhook = webhook_seo \<or> webhook = webhook_sub"
    and configured: "truthy (STRIPE_SECRET_KEY e)"
    and verified:
      "constructEvent (raw_body req) (stripe_signature req) (STRIPE_WEBHOOK_SECRET e) = Inr event"
  shows
    "(fst (webhook e constructEvent oc req d) =
        \<lparr>status_code = 200, body = Json [(''received'', JBool True)]\<rparr> \<or>
      (\<exists>m. oc = Rejected m) \<and>
      fst (webhook e constructEvent oc req d) =
        \<lparr>status_code = 500, body = Json [(''error'', JString ''server error'')]\<rparr>) \<and>
     webhook e constructEvent ErrorReturned req d =
       (\<lparr>status_code = 200, body = Json [(''received'', JBool True)]\<rparr>, d)"
proof -
  have w: "webhook e constructEvent oc0 req d = acknowledge (handle_event oc0 event d)" for oc0
    by (rule index_webhook_verified [where constructEvent = constructEvent, OF handler configured verified])
  have answer: "fst (acknowledge (handle_event oc event d)) =
        \<lparr>status_code = 200, body = Json [(''received'', JBool True)]\<rparr> \<or>
      (\<exists>m. oc = Rejected m) \<and>
      fst (acknowledge (handle_event oc event d)) =
        \<lparr>status_code = 500, body = Json [(''error'', JString ''server error'')]\<rparr>"
    using fst_handle_event_cases [of oc event d]
    by (auto simp: fst_acknowledge received_def server_error_def)
  have refused: "acknowledge (handle_event ErrorReturned event d) =
       (\<lparr>status_code = 200, body = Json [(''received'', JBool True)]\<rparr>, d)"
    by (simp add: acknowledge_def handle_event_def from_users_update_def received_def Let_def)
  show ?thesis
    unfolding w using answer refused by blast
qed

text \<open>
  A verified \<^verbatim>\<open>invoice.payment_succeeded\<close> event whose subscription id no account stores
  (the filter keeps no row) leaves the store as it was, whatever the store answers, and is
  answered with status 200 and \<^verbatim>\<open>{received: true}\<close> unless the store call throws.
\<close>

lemma invoice_unknown_subscription_acknowledged:
  assumes handler: "webhook = webhook_seo \<or> webhook = webhook_sub"
    and configured: "truthy (STRIPE_SECRET_KEY e)"
    and verified:
      "constructEvent (raw_body req) (stripe_signature req) (STRIPE_WEBHOOK_SECRET e) = Inr event"
    and invoice: "ev_type event = ''invoice.payment_succeeded''"
    and unknown:
      "filter (eq_stripe_subscription_id (subscription (data_object event))) (users d) = []"
  shows
    "snd (webhook e constructEvent oc req d) = d \<and>
     ((\<forall>m. oc \<noteq> Rejected m) \<longrightarrow>
        fst (webhook e constructEvent oc req d) =
          \<lparr>status_code = 200, body = Json [(''received'', JBool True)]\<rparr> \<and>
        is_2xx (fst (webhook e constructEvent oc req d)))"
proof -
  have w: "webhook e constructEvent oc req d = acknowledge (handle_event oc event d)"
    by (rule index_webhook_verified [where constructEvent = constructEvent, OF handler configured verified])
  have store: "snd (handle_event oc event d) = d"
    using invoice unknown
    by (simp add: handle_event_invoice from_users_update_no_match filter_empty_conv)
  have answer: "fst (acknowledge (handle_event oc event d)) =
          \<lparr>status_code = 200, body = Json [(''received'', JBool True)]\<rparr> \<and>
        is_2xx (fst (acknowledge (handle_event oc event d)))" if "\<forall>m. oc \<noteq> Rejected m"
    using that fst_handle_event_cases [of oc event d]
    by (auto simp: fst_acknowledge received_def is_2xx_def)
  show ?thesis
    unfolding w snd_acknowledge using store answer by blast
qed


subsection \<open>Creating a checkout session\<close>

lemma select_finds_no_customer:
  assumes "\<forall>r\<in>set (users d). eq_id userId r \<longrightarrow> \<not> truthy (stripe_customer_id r)"
    and "\<forall>m. oc \<noteq> Rejected m"
  shows "\<exists>found. select_stripe_customer_id oc userId d = Resolves found \<and> \<not> truthy found"
proof (cases oc)
  case Completed
  show ?thesis
  proof (cases "filter (eq_id userId) (users d)")
    case Nil
    with Completed show ?thesis
      by (simp add: select_stripe_customer_id_def truthy_def)
  next
    case (Cons u us)
    then have "u \<in> set (filter (eq_id userId) (users d))"
      by simp
    then have "\<not> truthy (stripe_customer_id u)"
      using assms(1) by simp
    with Completed Cons show ?thesis
      by (cases us) (simp_all add: select_stripe_customer_id_def truthy_def)
  qed
next
  case ErrorReturned
  then show ?thesis
    by (simp add: select_stripe_customer_id_def truthy_def)
next
  case (Rejected m)
  with assms(2) show ?thesis
    by simp
qed

lemma checkout_steps_new_customer:
  assumes no_customer: "\<forall>r\<in>set (users d). eq_id (req_userId req) r \<longrightarrow> \<not> truthy (stripe_customer_id r)"
    and selected: "\<forall>m. select_outcome up \<noteq> Rejected m"
    and created: "customers_create up = Resolves cid"
    and stored: "update_outcome up = Completed"
  shows
    "\<exists>p. checkout_steps base e up req d =
            (case sessions_create up of
               Resolves url \<Rightarrow> \<lparr>status_code = 200, body = Json [(''url'', jstring url)]\<rparr>
             | Rejects m \<Rightarrow> server_error,
             d\<lparr>users := map (\<lambda>r. if eq_id (req_userId req) r then r\<lparr>stripe_customer_id := cid\<rparr> else r)
                          (users d)\<rparr>,
             [UsersSelectCustomer (req_userId req),
              CustomersCreate (js_or (req_email req) None) (req_userId req),
              UsersUpdateCustomer (req_userId req) cid,
              SessionsCreate p]) \<and>
          sp_customer p = cid \<and>
          sp_client_reference_id p = req_userId req \<and>
          line_items p = [(STRIPE_PRICE_ID e, 1)]"
proof -
  obtain found where found:
    "select_stripe_customer_id (select_outcome up) (req_userId req) d = Resolves found"
    "\<not> truthy found"
    using select_finds_no_customer [OF no_customer selected] by blast
  show ?thesis
    using found created stored
    by (cases "sessions_create up")
      (simp_all add: checkout_steps_def Let_def from_users_update_def)
qed

text \<open>
  C8 fails as stated on the payment server of \<^verbatim>\<open>part_001\<close>: for account \<^verbatim>\<open>u1\<close>, which has
  no customer id, the only call made is the creation of the session; no customer is
  created and the store is left as it was.
\<close>

theorem create_checkout_session_counterexample:
  "truthy (req_userId request_u1) \<and> stripe_customer_id account_u1 = None \<and>
   create_checkout_session_pay env_full upstream_ok request_u1
       \<lparr>users = [account_u1], paiements = []\<rparr> =
     (\<lparr>status_code = 200, body = Json [(''url'', JString ''https://checkout.example/cs_1'')]\<rparr>,
      \<lparr>users = [account_u1], paiements = []\<rparr>,
      [SessionsCreate
         \<lparr>mode = ''payment'', sp_customer = None, line_items = [(Some ''price_1'', 1)],
          allow_promotion_codes = None,
          success_url = ''https://app.parrainsport.fr/success?session_id={CHECKOUT_SESSION_ID}'',
          cancel_url = ''https://app.parrainsport.fr/profile'',
          sp_client_reference_id = Some ''u1'',
          sp_metadata = [(''user_id'', Some ''u1''), (''boost_type'', Some ''adherent'')],
          sp_locale = Some ''fr''\<rparr>])"
  by (simp add: create_checkout_session_pay_def request_u1_def truthy_def js_or_def env_full_def
      upstream_ok_def account_u1_def jstring_def Let_def)

text \<open>
  C8, as amended.  Take a request with a truthy user id.
  \<^item> On either server of \<^verbatim>\<open>src/index.js\<close> (the first one with a Stripe client), when no
    account of that id has a customer id, the select does not throw, Stripe creates a
    customer and the store completes the update: the calls are, in this order, the
    select, the creation of the customer, the update that stores the new customer id on
    the accounts of that id, and the creation of the session.  The customer id is stored
    whether or not the session creation succeeds.  The session is created for the new
    customer, with the user id as \<^verbatim>\<open>client_reference_id\<close> and one line item whose price is
    \<^verbatim>\<open>STRIPE_PRICE_ID\<close> of the environment.
  \<^item> On the payment server of \<^verbatim>\<open>part_001\<close> the only call is the creation of the session,
    with no customer, the user id as \<^verbatim>\<open>client_reference_id\<close> and the same price; the
    store is left as it was.
\<close>

theorem create_checkout_session_customer:
  assumes handler:
    "create_session = create_checkout_session_seo \<or> create_session = create_checkout_session_sub"
    and configured: "truthy (STRIPE_SECRET_KEY e)"
    and user: "truthy (req_userId req)"
    and no_customer:
      "\<forall>r\<in>set (users d). eq_id (req_userId req) r \<longrightarrow> \<not> truthy (stripe_customer_id r)"
    and selected: "\<forall>m. select_outcome up \<noteq> Rejected m"
    and created: "customers_create up = Resolves cid"
    and stored: "update_outcome up = Completed"
  shows
    "(\<exists>p. create_session e up req d =
            (case sessions_create up of
               Resolves url \<Rightarrow> \<lparr>status_code = 200, body = Json [(''url'', jstring url)]\<rparr>
             | Rejects m \<Rightarrow> server_error,
             d\<lparr>users := map (\<lambda>r. if eq_id (req_userId req) r then r\<lparr>stripe_customer_id := cid\<rparr> else r)
                          (users d)\<rparr>,
             [UsersSelectCustomer (req_userId req),
              CustomersCreate (js_or (req_email req) None) (req_userId req),
              UsersUpdateCustomer (req_userId req) cid,
              SessionsCreate p]) \<and>
          sp_customer p = cid \<and>
          sp_client_reference_id p = req_userId req \<and>
          line_items p = [(STRIPE_PRICE_ID e, 1)]) \<and>
     (\<exists>p. snd (create_checkout_session_pay e up req d) = (d, [SessionsCreate p]) \<and>
          sp_customer p = None \<and>
          sp_client_reference_id p = req_userId req \<and>
          line_items p = [(STRIPE_PRICE_ID e, 1)])"
proof -
  have pay: "\<exists>p. snd (create_checkout_session_pay e up req d) = (d, [SessionsCreate p]) \<and>
          sp_customer p = None \<and>
          sp_client_reference_id p = req_userId req \<and>
          line_items p = [(STRIPE_PRICE_ID e, 1)]"
    using user
    by (cases "sessions_create up") (simp_all add: create_checkout_session_pay_def Let_def)
  from handler have index: "\<exists>base. create_session e up req d = checkout_steps base e up req d"
  proof
    assume "create_session = create_checkout_session_seo"
    with configured user show ?thesis
      by (simp add: create_checkout_session_seo_def) blast
  next
    assume "create_session = create_checkout_session_sub"
    with user show ?thesis
      by (simp add: create_checkout_session_sub_def) blast
  qed
  then obtain base where base: "create_session e up req d = checkout_steps base e up req d" ..
  show ?thesis
    unfolding base
    by (rule conjI
        [OF checkout_steps_new_customer [OF no_customer selected created stored, of base e] pay])
qed

text \<open>
  Account \<^verbatim>\<open>u1\<close> asks for a session on the first server: Stripe creates \<^verbatim>\<open>cus_9\<close>, which
  is stored on \<^verbatim>\<open>u1\<close> before the session is created with \<^verbatim>\<open>price_1\<close>.
\<close>

theorem create_checkout_session_customer_witness:
  "create_checkout_session_seo env_full upstream_ok request_u1
       \<lparr>users = [account_u1, account_u2], paiements = []\<rparr> =
     (\<lparr>status_code = 200, body = Json [(''url'', JString ''https://checkout.example/cs_1'')]\<rparr>,
      \<lparr>users = [account_u1\<lparr>stripe_customer_id := Some ''cus_9''\<rparr>, account_u2], paiements = []\<rparr>,
      [UsersSelectCustomer (Some ''u1''),
       CustomersCreate (Some ''u1@example.org'') (Some ''u1''),
       UsersUpdateCustomer (Some ''u1'') (Some ''cus_9''),
       SessionsCreate
         \<lparr>mode = ''subscription'', sp_customer = Some ''cus_9'',
          line_items = [(Some ''price_1'', 1)], allow_promotion_codes = Some True,
          success_url = ''http://localhost:5173/success?session_id={CHECKOUT_SESSION_ID}'',
          cancel_url = ''http://localhost:5173/profil'',
          sp_client_reference_id = Some ''u1'',
          sp_metadata = [(''origin'', Some ''parrainsport-boost'')],
          sp_locale = None\<rparr>])"
proof -
  have user: "truthy (req_userId request_u1)"
    by (simp add: request_u1_def truthy_def)
  have no_customer:
    "\<forall>r\<in>set (users \<lparr>users = [account_u1, account_u2], paiements = []\<rparr>).
       eq_id (req_userId request_u1) r \<longrightarrow> \<not> truthy (stripe_customer_id r)"
    by (simp add: request_u1_def eq_id_def account_u1_def account_u2_def truthy_def)
  have selected: "\<forall>m. select_outcome upstream_ok \<noteq> Rejected m"
    by (simp add: upstream_ok_def)
  have created: "customers_create upstream_ok = Resolves (Some ''cus_9'')"
    by (simp add: upstream_ok_def)
  have stored: "update_outcome upstream_ok = Completed"
    by (simp add: upstream_ok_def)
  note session =
    create_checkout_session_customer
      [OF disjI1 [OF refl] env_full_configured user no_customer selected created stored,
       THEN conjunct1]
  then have answer:
    "fst (create_checkout_session_seo env_full upstream_ok request_u1
       \<lparr>users = [account_u1, account_u2], paiements = []\<rparr>) =
     (case sessions_create upstream_ok of
        Resolves url \<Rightarrow> \<lparr>status_code = 200, body = Json [(''url'', jstring url)]\<rparr>
      | Rejects m \<Rightarrow> server_error)"
    by auto
  from session have store:
    "fst (snd (create_checkout_session_seo env_full upstream_ok request_u1
       \<lparr>users = [account_u1, account_u2], paiements = []\<rparr>)) =
     \<lparr>users = [account_u1, account_u2], paiements = []\<rparr>
       \<lparr>users := map (\<lambda>r. if eq_id (req_userId request_u1) r
                          then r\<lparr>stripe_customer_id := Some ''cus_9''\<rparr> else r)
                    (users \<lparr>users = [account_u1, account_u2], paiements = []\<rparr>)\<rparr>"
    by auto
  have log: "snd (snd (create_checkout_session_seo env_full upstream_ok request_u1
       \<lparr>users = [account_u1, account_u2], paiements = []\<rparr>)) =
      [UsersSelectCustomer (Some ''u1''),
       CustomersCreate (Some ''u1@example.org'') (Some ''u1''),
       UsersUpdateCustomer (Some ''u1'') (Some ''cus_9''),
       SessionsCreate
         \<lparr>mode = ''subscription'', sp_customer = Some ''cus_9'',
          line_items = [(Some ''price_1'', 1)], allow_promotion_codes = Some True,
          success_url = ''http://localhost:5173/success?session_id={CHECKOUT_SESSION_ID}'',
          cancel_url = ''http://localhost:5173/profil'',
          sp_client_reference_id = Some ''u1'',
          sp_metadata = [(''origin'', Some ''parrainsport-boost'')],
          sp_locale = None\<rparr>]"
    by (simp add: create_checkout_session_seo_def checkout_steps_def env_full_def truthy_def
        request_u1_def upstream_ok_def select_stripe_customer_id_def eq_id_def account_u1_def
        account_u2_def from_users_update_def js_or_def client_base_url_def
        strip_trailing_slashes_def Let_def)
  show ?thesis
    using answer store log
    by (simp add: prod_eq_iff upstream_ok_def jstring_def request_u1_def eq_id_def
        account_u1_def account_u2_def)
qed

subsection \<open>Startup\<close>

text \<open>
  C9 fails as stated: with the data-store variables set, a store client that can be
  built and no Stripe secret key, the first server of \<^verbatim>\<open>src/index.js\<close> warns and listens,
  without a Stripe client.
\<close>

theorem startup_fail_fast_counterexample:
  "startup_seo library_checks_url env_no_stripe_key =
     Listening \<lparr>stripe_client = False, warned = True\<rparr>"
  by (simp add: startup_seo_def library_checks_url_def env_no_stripe_key_def env_full_def
      truthy_def)

text \<open>
  C9, as amended.
  \<^item> The first server of \<^verbatim>\<open>src/index.js\<close> exits with code 1 when \<^verbatim>\<open>SUPABASE_URL\<close> or
    \<^verbatim>\<open>SUPABASE_SERVICE_ROLE_KEY\<close> is missing, whatever the libraries do.
  \<^item> A missing Stripe variable does not prevent its start: with both data-store
    variables set and no constructor throwing, it listens, having warned when a Stripe
    variable is missing, with a Stripe client when \<^verbatim>\<open>STRIPE_SECRET_KEY\<close> is set and
    without one otherwise; without that client its webhook and its session route answer
    501.
  \<^item> The second server exits with code 1 when one of the five variables is missing,
    whatever the libraries do.
\<close>

theorem startup_fail_fast:
  "(\<not> truthy (SUPABASE_URL e) \<or> \<not> truthy (SUPABASE_SERVICE_ROLE_KEY e) \<longrightarrow>
      startup_seo lib e = Exited 1) \<and>
   (truthy (SUPABASE_URL e) \<and> truthy (SUPABASE_SERVICE_ROLE_KEY e) \<and>
    \<not> createClient_throws lib (SUPABASE_URL e) (SUPABASE_SERVICE_ROLE_KEY e) \<and>
    \<not> (truthy (STRIPE_SECRET_KEY e) \<and> Stripe_throws lib (STRIPE_SECRET_KEY e)) \<longrightarrow>
      startup_seo lib e =
        Listening
          \<lparr>stripe_client = truthy (STRIPE_SECRET_KEY e),
           warned = (\<not> truthy (STRIPE_SECRET_KEY e) \<or> \<not> truthy (STRIPE_PRICE_ID e)
                     \<or> \<not> truthy (STRIPE_WEBHOOK_SECRET e))\<rparr>) \<and>
   (\<not> truthy (STRIPE_SECRET_KEY e) \<longrightarrow>
      webhook_seo e constructEvent oc req d =
        (\<lparr>status_code = 501, body = Send ''Stripe not configured''\<rparr>, d) \<and>
      create_checkout_session_seo e up creq d =
        (\<lparr>status_code = 501, body = Json [(''error'', JString ''Stripe not configured'')]\<rparr>, d, [])) \<and>
   (\<not> truthy (STRIPE_SECRET_KEY e) \<or> \<not> truthy (STRIPE_PRICE_ID e)
    \<or> \<not> truthy (STRIPE_WEBHOOK_SECRET e) \<or> \<not> truthy (SUPABASE_URL e)
    \<or> \<not> truthy (SUPABASE_SERVICE_ROLE_KEY e) \<longrightarrow>
      startup_sub lib e = Exited 1)"
  by (simp add: startup_seo_def startup_sub_def webhook_seo_def create_checkout_session_seo_def)

text \<open>
  A store client whose constructor throws on the configured URL and key, a malformed URL
  for instance, also keeps both servers from starting.
\<close>

lemma startup_createClient_throws:
  "createClient_throws lib (SUPABASE_URL e) (SUPABASE_SERVICE_ROLE_KEY e) \<Longrightarrow>
   startup_seo lib e = Exited 1 \<and> startup_sub lib e = Exited 1"
  by (simp add: startup_seo_def startup_sub_def)

text \<open>
  Without the data-store URL both servers exit; without the Stripe secret key the second
  one exits, and the first one listens without a Stripe client and answers 501 on its
  webhook.
\<close>

theorem startup_fail_fast_witness:
  "startup_seo library_checks_url (env_full\<lparr>SUPABASE_URL := None\<rparr>) = Exited 1 \<and>
   startup_sub library_checks_url (env_full\<lparr>SUPABASE_URL := None\<rparr>) = Exited 1 \<and>
   startup_sub library_checks_url env_no_stripe_key = Exited 1 \<and>
   startup_seo library_checks_url env_no_stripe_key =
     Listening \<lparr>stripe_client = False, warned = True\<rparr> \<and>
   webhook_seo env_no_stripe_key (construct_event_messages checkout_u1) Completed delivery
       \<lparr>users = [account_u1], paiements = []\<rparr> =
     (\<lparr>status_code = 501, body = Send ''Stripe not configured''\<rparr>,
      \<lparr>users = [account_u1], paiements = []\<rparr>)"
proof -
  note no_url = startup_fail_fast [of "env_full\<lparr>SUPABASE_URL := None\<rparr>" library_checks_url]
  note no_key =
    startup_fail_fast
      [of env_no_stripe_key library_checks_url "construct_event_messages checkout_u1" Completed
        delivery "\<lparr>users = [account_u1], paiements = []\<rparr>"]
  have a: "startup_seo library_checks_url (env_full\<lparr>SUPABASE_URL := None\<rparr>) = Exited 1 \<and>
           startup_sub library_checks_url (env_full\<lparr>SUPABASE_URL := None\<rparr>) = Exited 1"
    using no_url by (simp add: env_full_def truthy_def)
  have b: "startup_sub library_checks_url env_no_stripe_key = Exited 1 \<and>
           startup_seo library_checks_url env_no_stripe_key =
             Listening \<lparr>stripe_client = False, warned = True\<rparr> \<and>
           webhook_seo env_no_stripe_key (construct_event_messages checkout_u1) Completed delivery
               \<lparr>users = [account_u1], paiements = []\<rparr> =
             (\<lparr>status_code = 501, body = Send ''Stripe not configured''\<rparr>,
              \<lparr>users = [account_u1], paiements = []\<rparr>)"
    using no_key
    by (simp add: env_no_stripe_key_def env_full_def truthy_def library_checks_url_def)
  show ?thesis using a b by simp
qed

end
